theory Spec2Isabelle
  imports Main
begin

section \<open>The relational store of app.py\<close>

text \<open>
  The five tables that \<open>init_db\<close> creates, one record per row, each table a list of rows
  in insertion order. Every table has an \<open>INTEGER PRIMARY KEY AUTOINCREMENT\<close> column; the
  counter SQLite keeps for it (the largest id ever handed out) is a field of the store.
  Column values are Python and SQLite integers, modelled as \<open>int\<close>; the 64-bit range of
  SQLite's INTEGER and the \<open>created_at\<close> timestamp of an order are not part of the model.
  Nullable TEXT columns (\<open>email\<close>, \<open>image\<close>) are options.
\<close>

record user_row =
  u_id :: int
  u_username :: string
  u_email :: "string option"
  u_password :: string

record product_row =
  p_id :: int
  p_name :: string
  p_price :: int
  p_image :: "string option"

record cart_row =
  c_id :: int
  c_user_id :: int
  c_product_id :: int
  c_quantity :: int

record order_row =
  o_id :: int
  o_user_id :: int
  o_total_amount :: int

record order_item_row =
  oi_id :: int
  oi_order_id :: int
  oi_product_id :: int
  oi_quantity :: int
  oi_price_each :: int

record db =
  users :: "user_row list"
  products :: "product_row list"
  cart :: "cart_row list"
  orders :: "order_row list"
  order_items :: "order_item_row list"
  users_seq :: int
  products_seq :: int
  cart_seq :: int
  orders_seq :: int
  order_items_seq :: int

datatype error = IntegrityError | OperationalError | ValueError

text \<open>
  A connection as \<open>get_db\<close> opens it: the committed database file and the connection's own
  view, which holds the statements executed since the last commit. \<open>db.commit()\<close> publishes
  the view; \<open>close_db\<close>, run at the end of every request, closes the connection, and what
  was not committed is lost.
\<close>

record conn =
  committed :: db
  working :: db

definition get_db :: "db \<Rightarrow> conn" where
  "get_db s = \<lparr>committed = s, working = s\<rparr>"

definition execute :: "(db \<Rightarrow> db) \<Rightarrow> conn \<Rightarrow> conn" where
  "execute stmt c = c\<lparr>working := stmt (working c)\<rparr>"

definition commit :: "conn \<Rightarrow> conn" where
  "commit c = c\<lparr>committed := working c\<rparr>"

definition close_db :: "conn \<Rightarrow> db" where
  "close_db c = committed c"

subsection \<open>The SQL statements\<close>

definition empty_db :: db where
  "empty_db = \<lparr>users = [], products = [], cart = [], orders = [], order_items = [],
     users_seq = 0, products_seq = 0, cart_seq = 0, orders_seq = 0, order_items_seq = 0\<rparr>"

definition insert_product :: "string \<times> int \<times> string \<Rightarrow> db \<Rightarrow> db" where
  "insert_product row s =
     (case row of (name, pr, img) \<Rightarrow>
        s\<lparr>products := products s @
             [\<lparr>p_id = products_seq s + 1, p_name = name, p_price = pr, p_image = Some img\<rparr>],
          products_seq := products_seq s + 1\<rparr>)"

definition seed_products :: "(string \<times> int \<times> string) list" where
  "seed_products =
     [(''Tomato-1 Kg'', 200, ''img/tomato.jpeg''),
      (''Beans-1 Kg'', 100, ''img/beans.jpeg''),
      (''Brinjal-1 Kg'', 60, ''img/brinjal.jpeg''),
      (''Potato-1 Kg'', 50, ''img/potato.jpeg''),
      (''Cabbage-1 Kg'', 40, ''img/Cabbage.jpg''),
      (''Onion-1 Kg'', 70, ''img/onion.jpg''),
      (''Cauliflower-1 Pc'', 55, ''img/cauliflower.jpg''),
      (''Lemon-6 Pc'', 30, ''img/lemon.jpg'')]"

definition init_db :: "db \<Rightarrow> db" where
  "init_db s =
     (let c = get_db s;
          count = length (products (working c));
          c = (if count = 0 then execute (\<lambda>w. foldl (\<lambda>w row. insert_product row w) w seed_products) c
               else c)
      in close_db (commit c))"

text \<open>
  \<open>INSERT INTO users\<close>: \<open>username\<close> and \<open>email\<close> are UNIQUE, and the statement raises
  \<open>sqlite3.IntegrityError\<close> when either value is already stored.
\<close>

definition insert_user :: "string \<Rightarrow> string \<Rightarrow> string \<Rightarrow> db \<Rightarrow> error + db" where
  "insert_user un em pw s =
     (if list_ex (\<lambda>u. u_username u = un \<or> u_email u = Some em) (users s)
      then Inl IntegrityError
      else Inr (s\<lparr>users := users s @
                    [\<lparr>u_id = users_seq s + 1, u_username = un, u_email = Some em,
                      u_password = pw\<rparr>],
                  users_seq := users_seq s + 1\<rparr>))"

definition select_user :: "string \<Rightarrow> string \<Rightarrow> db \<Rightarrow> user_row option" where
  "select_user un pw s = find (\<lambda>u. u_username u = un \<and> u_password u = pw) (users s)"

definition select_cart_quantity :: "int \<Rightarrow> int \<Rightarrow> db \<Rightarrow> int option" where
  "select_cart_quantity uid pid s =
     map_option c_quantity (find (\<lambda>c. c_user_id c = uid \<and> c_product_id c = pid) (cart s))"

definition update_cart_increment :: "int \<Rightarrow> int \<Rightarrow> db \<Rightarrow> db" where
  "update_cart_increment uid pid s =
     s\<lparr>cart := map (\<lambda>c. if c_user_id c = uid \<and> c_product_id c = pid
                          then c\<lparr>c_quantity := c_quantity c + 1\<rparr> else c) (cart s)\<rparr>"

text \<open>\<open>INSERT INTO cart\<close>: the pair \<open>(user_id, product_id)\<close> is UNIQUE.\<close>

definition insert_cart :: "int \<Rightarrow> int \<Rightarrow> int \<Rightarrow> db \<Rightarrow> error + db" where
  "insert_cart uid pid q s =
     (if list_ex (\<lambda>c. c_user_id c = uid \<and> c_product_id c = pid) (cart s)
      then Inl IntegrityError
      else Inr (s\<lparr>cart := cart s @
                    [\<lparr>c_id = cart_seq s + 1, c_user_id = uid, c_product_id = pid,
                      c_quantity = q\<rparr>],
                  cart_seq := cart_seq s + 1\<rparr>))"

definition delete_cart_line :: "int \<Rightarrow> int \<Rightarrow> db \<Rightarrow> db" where
  "delete_cart_line uid pid s =
     s\<lparr>cart := filter (\<lambda>c. \<not> (c_user_id c = uid \<and> c_product_id c = pid)) (cart s)\<rparr>"

definition update_cart_quantity :: "int \<Rightarrow> int \<Rightarrow> int \<Rightarrow> db \<Rightarrow> db" where
  "update_cart_quantity q uid pid s =
     s\<lparr>cart := map (\<lambda>c. if c_user_id c = uid \<and> c_product_id c = pid
                          then c\<lparr>c_quantity := q\<rparr> else c) (cart s)\<rparr>"

definition delete_cart_user :: "int \<Rightarrow> db \<Rightarrow> db" where
  "delete_cart_user uid s = s\<lparr>cart := filter (\<lambda>c. c_user_id c \<noteq> uid) (cart s)\<rparr>"

text \<open>
  The join of \<open>checkout\<close>: \<open>SELECT c.product_id, p.price, c.quantity FROM cart c JOIN
  products p ON p.id = c.product_id WHERE c.user_id=?\<close>, one row per pair of a cart line
  of the user and a product with the line's product id.
\<close>

record item =
  i_product_id :: int
  i_price :: int
  i_quantity :: int

definition select_items :: "int \<Rightarrow> db \<Rightarrow> item list" where
  "select_items uid s =
     concat (map (\<lambda>c. map (\<lambda>p. \<lparr>i_product_id = c_product_id c, i_price = p_price p,
                                   i_quantity = c_quantity c\<rparr>)
                          (filter (\<lambda>p. p_id p = c_product_id c) (products s)))
                 (filter (\<lambda>c. c_user_id c = uid) (cart s)))"

definition insert_order :: "int \<Rightarrow> int \<Rightarrow> db \<Rightarrow> db" where
  "insert_order uid total_amount s =
     s\<lparr>orders := orders s @
          [\<lparr>o_id = orders_seq s + 1, o_user_id = uid, o_total_amount = total_amount\<rparr>],
       orders_seq := orders_seq s + 1\<rparr>"

definition insert_order_item :: "int \<Rightarrow> item \<Rightarrow> db \<Rightarrow> db" where
  "insert_order_item order_id i s =
     s\<lparr>order_items := order_items s @
          [\<lparr>oi_id = order_items_seq s + 1, oi_order_id = order_id,
            oi_product_id = i_product_id i, oi_quantity = i_quantity i,
            oi_price_each = i_price i\<rparr>],
       order_items_seq := order_items_seq s + 1\<rparr>"

section \<open>The delivery layer: sessions, form fields, responses\<close>

record session =
  s_user_id :: "int option"
  s_username :: "string option"

definition current_user_id :: "session \<Rightarrow> int option" where
  "current_user_id se = s_user_id se"

text \<open>Python's truth value of \<open>current_user_id()\<close>: \<open>None\<close> and \<open>0\<close> are false.\<close>

definition truthy :: "int option \<Rightarrow> bool" where
  "truthy v = (case v of None \<Rightarrow> False | Some n \<Rightarrow> n \<noteq> 0)"

text \<open>\<open>str.strip()\<close> on the ASCII whitespace characters.\<close>

definition is_space :: "char \<Rightarrow> bool" where
  "is_space ch = (let n = (of_char ch :: nat) in (9 \<le> n \<and> n \<le> 13) \<or> (28 \<le> n \<and> n \<le> 32))"

definition strip :: "string \<Rightarrow> string" where
  "strip t = rev (dropWhile is_space (rev (dropWhile is_space t)))"

datatype http_method = GET | POST

text \<open>
  The \<open>quantity\<close> field of \<open>update_cart\<close> as \<open>int(request.form.get("quantity", 1))\<close> sees it:
  absent (the default 1 is used), a text that \<open>int\<close> parses, or a text on which \<open>int\<close> raises
  \<open>ValueError\<close>.
\<close>

datatype quantity_field = Absent | Parsed int | Unparsable

text \<open>
  What a handler returns. A flashed message is kept with the response it precedes, as
  \<open>(message, category)\<close>.
\<close>

datatype response =
    Template string "(string \<times> string) option"
  | RedirectTo string "(string \<times> string) option"
  | ThankYou int
  | JsonOk
  | JsonUnauthorized "string option"
  | ServerError error

section \<open>The request handlers\<close>

definition signup :: "http_method \<Rightarrow> string \<Rightarrow> string \<Rightarrow> string \<Rightarrow> db \<Rightarrow> response \<times> db" where
  "signup m username_f email_f password_f s =
     (if m = POST then
        (let username = strip username_f; email = strip email_f; password = strip password_f in
         if username = [] \<or> password = []
         then (Template ''signup.html'' (Some (''Username and password are required.'', ''error'')), s)
         else
           (let c = get_db s in
            case insert_user username email password (working c) of
              Inr w \<Rightarrow>
                (RedirectTo ''login'' (Some (''Signup successful. Please log in.'', ''success'')),
                 close_db (commit (c\<lparr>working := w\<rparr>)))
            | Inl IntegrityError \<Rightarrow>
                (Template ''signup.html'' (Some (''Username or email already exists.'', ''error'')),
                 close_db c)
            | Inl e \<Rightarrow> (ServerError e, close_db c)))
      else (Template ''signup.html'' None, s))"

definition login :: "http_method \<Rightarrow> string \<Rightarrow> string \<Rightarrow> session \<Rightarrow> db \<Rightarrow> response \<times> session \<times> db" where
  "login m username_f password_f se s =
     (if m = POST then
        (let username = strip username_f; password = strip password_f; c = get_db s in
         case select_user username password (working c) of
           Some user \<Rightarrow>
             (RedirectTo ''home'' (Some (''Logged in.'', ''success'')),
              se\<lparr>s_user_id := Some (u_id user), s_username := Some (u_username user)\<rparr>,
              close_db c)
         | None \<Rightarrow>
             (Template ''login.html'' (Some (''Invalid credentials.'', ''error'')), se, close_db c))
      else (Template ''login.html'' None, se, s))"

definition logout :: "session \<Rightarrow> response \<times> session" where
  "logout se = (RedirectTo ''home'' (Some (''Logged out.'', ''info'')),
                \<lparr>s_user_id = None, s_username = None\<rparr>)"

definition add_to_cart :: "session \<Rightarrow> int \<Rightarrow> db \<Rightarrow> response \<times> db" where
  "add_to_cart se product_id s =
     (if \<not> truthy (current_user_id se) then (JsonUnauthorized (Some ''login''), s)
      else
        (let uid = the (current_user_id se); c = get_db s in
         case select_cart_quantity uid product_id (working c) of
           Some row \<Rightarrow> (JsonOk, close_db (commit (execute (update_cart_increment uid product_id) c)))
         | None \<Rightarrow>
             (case insert_cart uid product_id 1 (working c) of
                Inr w \<Rightarrow> (JsonOk, close_db (commit (c\<lparr>working := w\<rparr>)))
              | Inl e \<Rightarrow> (ServerError e, close_db c))))"

definition update_cart :: "session \<Rightarrow> int \<Rightarrow> quantity_field \<Rightarrow> db \<Rightarrow> response \<times> db" where
  "update_cart se product_id field s =
     (if \<not> truthy (current_user_id se) then (JsonUnauthorized (Some ''login''), s)
      else
        (case field of
           Unparsable \<Rightarrow> (ServerError ValueError, s)
         | _ \<Rightarrow>
           (let qty = (case field of Parsed n \<Rightarrow> n | _ \<Rightarrow> 1);
                qty = max 0 qty;
                uid = the (current_user_id se);
                c = get_db s;
                c = (if qty = 0 then execute (delete_cart_line uid product_id) c
                     else execute (update_cart_quantity qty uid product_id) c)
            in (JsonOk, close_db (commit c)))))"

definition clear_cart :: "session \<Rightarrow> db \<Rightarrow> response \<times> db" where
  "clear_cart se s =
     (if \<not> truthy (current_user_id se) then (JsonUnauthorized None, s)
      else (JsonOk, close_db (commit (execute (delete_cart_user (the (current_user_id se))) (get_db s)))))"

text \<open>
  \<open>checkout\<close>. None of its statements is guarded by \<open>try\<close>, so a statement that raises ends
  the request; \<open>fault\<close> names the statement of the order transaction that raises, if any.
  \<open>FailInsertItem k\<close> lets \<open>executemany\<close> raise at its row \<open>k\<close> (counted from 0), after the
  rows before it were inserted in the connection's view. The context handed to the
  template of the GET page (the items and their total) is not modelled.
\<close>

datatype fault = NoFault | FailInsertOrder | FailInsertItem nat | FailDeleteCart | FailCommit

fun executemany_order_items :: "fault \<Rightarrow> int \<Rightarrow> item list \<Rightarrow> conn \<Rightarrow> (error \<times> conn) + conn" where
  "executemany_order_items f order_id [] c = Inr c"
| "executemany_order_items f order_id (i # items) c =
     (if f = FailInsertItem 0 then Inl (OperationalError, c)
      else executemany_order_items (case f of FailInsertItem (Suc k) \<Rightarrow> FailInsertItem k | _ \<Rightarrow> f)
             order_id items (execute (insert_order_item order_id i) c))"

definition checkout :: "fault \<Rightarrow> http_method \<Rightarrow> session \<Rightarrow> db \<Rightarrow> response \<times> db" where
  "checkout f m se s =
     (if \<not> truthy (current_user_id se) then (RedirectTo ''login'' None, s)
      else
        (let uid = the (current_user_id se); c = get_db s in
         if m = POST then
           (let items = select_items uid (working c) in
            if items = []
            then (RedirectTo ''cart'' (Some (''Cart is empty.'', ''error'')), close_db c)
            else
              (let total_amount = sum_list (map (\<lambda>i. i_price i * i_quantity i) items) in
               if f = FailInsertOrder then (ServerError OperationalError, close_db c)
               else
                 (let c = execute (insert_order uid total_amount) c;
                      order_id = orders_seq (working c)
                  in case executemany_order_items f order_id items c of
                       Inl (e, c) \<Rightarrow> (ServerError e, close_db c)
                     | Inr c \<Rightarrow>
                         if f = FailDeleteCart then (ServerError OperationalError, close_db c)
                         else
                           (let c = execute (delete_cart_user uid) c in
                            if f = FailCommit then (ServerError OperationalError, close_db c)
                            else (ThankYou order_id, close_db (commit c))))))
         else (Template ''checkout.html'' None, close_db c)))"

subsection \<open>Requests in sequence\<close>

text \<open>
  The handlers that write to the store or to the session, as one request type. Every
  request brings its own session cookie; \<open>run\<close> serves a list of requests one after the
  other on the same store.
\<close>

datatype request =
    ReqSignup http_method string string string
  | ReqLogin http_method string string
  | ReqLogout
  | ReqAddToCart int
  | ReqUpdateCart int quantity_field
  | ReqClearCart
  | ReqCheckout fault http_method

fun handle :: "session \<Rightarrow> request \<Rightarrow> db \<Rightarrow> response \<times> session \<times> db" where
  "handle se (ReqSignup m u e p) s = (case signup m u e p s of (r, s') \<Rightarrow> (r, se, s'))"
| "handle se (ReqLogin m u p) s = login m u p se s"
| "handle se ReqLogout s = (case logout se of (r, se') \<Rightarrow> (r, se', s))"
| "handle se (ReqAddToCart pid) s = (case add_to_cart se pid s of (r, s') \<Rightarrow> (r, se, s'))"
| "handle se (ReqUpdateCart pid fld) s = (case update_cart se pid fld s of (r, s') \<Rightarrow> (r, se, s'))"
| "handle se ReqClearCart s = (case clear_cart se s of (r, s') \<Rightarrow> (r, se, s'))"
| "handle se (ReqCheckout f m) s = (case checkout f m se s of (r, s') \<Rightarrow> (r, se, s'))"

fun run :: "(session \<times> request) list \<Rightarrow> db \<Rightarrow> db" where
  "run [] s = s"
| "run ((se, rq) # rest) s = run rest (snd (snd (handle se rq s)))"

section \<open>A shop with one customer\<close>

text \<open>
  The seeded catalog (Tomato is product 1 at 200, Potato product 4 at 50), the customer
  \<open>asha\<close> signed up as user 1, and in her cart two Tomato and one Potato.
\<close>

definition asha :: session where
  "asha = \<lparr>s_user_id = Some 1, s_username = Some ''asha''\<rparr>"

definition shop_db :: db where
  "shop_db =
     run [(\<lparr>s_user_id = None, s_username = None\<rparr>, ReqSignup POST ''asha'' ''asha@example.org'' ''pw''),
          (asha, ReqAddToCart 1), (asha, ReqAddToCart 1), (asha, ReqAddToCart 4)]
       (init_db empty_db)"

section \<open>The words of the specification\<close>

text \<open>
  The cart lines of a user, the current catalog price of a product id (none when no
  product has that id), the lines whose product is in the catalog, and the total of a
  cart: the sum over the user's lines of catalog price times quantity, where a line
  without a catalog price has no subtotal to add.
\<close>

definition cart_lines :: "int \<Rightarrow> db \<Rightarrow> cart_row list" where
  "cart_lines uid s = filter (\<lambda>c. c_user_id c = uid) (cart s)"

definition catalog_price :: "db \<Rightarrow> int \<Rightarrow> int option" where
  "catalog_price s pid = map_option p_price (find (\<lambda>p. p_id p = pid) (products s))"

definition in_catalog :: "db \<Rightarrow> cart_row \<Rightarrow> bool" where
  "in_catalog s c = (catalog_price s (c_product_id c) \<noteq> None)"

definition priced_lines :: "int \<Rightarrow> db \<Rightarrow> cart_row list" where
  "priced_lines uid s = filter (in_catalog s) (cart_lines uid s)"



text \<open>The order items of one order, and the order headers with one id.\<close>

definition items_of_order :: "int \<Rightarrow> db \<Rightarrow> order_item_row list" where
  "items_of_order oid s = filter (\<lambda>oi. oi_order_id oi = oid) (order_items s)"

definition headers_of_order :: "int \<Rightarrow> db \<Rightarrow> order_row list" where
  "headers_of_order oid s = filter (\<lambda>row. o_id row = oid) (orders s)"

text \<open>The conditions of the error taxonomy, as the responses that surface them.\<close>

definition EmptyCart :: response where
  "EmptyCart = RedirectTo ''cart'' (Some (''Cart is empty.'', ''error''))"




text \<open>
  The constraints the store keeps: product ids are a primary key, and no order or order
  item carries an order id that the AUTOINCREMENT counter of \<open>orders\<close> has not handed out.
\<close>

definition store_ok :: "db \<Rightarrow> bool" where
  "store_ok s =
     (distinct (map p_id (products s)) \<and>
      list_all (\<lambda>row. o_id row \<le> orders_seq s) (orders s) \<and>
      list_all (\<lambda>oi. oi_order_id oi \<le> orders_seq s) (order_items s))"


text \<open>
  No handler of app.py writes to \<open>products\<close> after seeding. A later change of catalog
  prices is an edit of that table from outside the application; a history interleaves
  such edits, each replacing the table by any other, with the requests served.
\<close>

datatype event = Served session request | CatalogEdited "product_row list"

fun apply_event :: "event \<Rightarrow> db \<Rightarrow> db" where
  "apply_event (Served se rq) s = snd (snd (handle se rq s))"
| "apply_event (CatalogEdited ps) s = s\<lparr>products := ps\<rparr>"

fun history :: "event list \<Rightarrow> db \<Rightarrow> db" where
  "history [] s = s"
| "history (ev # evs) s = history evs (apply_event ev s)"

text \<open>
  The rows that \<open>executemany\<close> appends to \<open>order_items\<close> for the items of an order, when the
  AUTOINCREMENT counter of the table stands at \<open>n\<close>.
\<close>

fun item_rows :: "int \<Rightarrow> int \<Rightarrow> item list \<Rightarrow> order_item_row list" where
  "item_rows oid n [] = []"
| "item_rows oid n (i # items) =
     \<lparr>oi_id = n + 1, oi_order_id = oid, oi_product_id = i_product_id i,
       oi_quantity = i_quantity i, oi_price_each = i_price i\<rparr> # item_rows oid (n + 1) items"

text \<open>Whether a fault strikes a checkout whose join has \<open>n\<close> rows.\<close>

definition fault_hits :: "fault \<Rightarrow> nat \<Rightarrow> bool" where
  "fault_hits f n = (case f of NoFault \<Rightarrow> False | FailInsertItem k \<Rightarrow> k < n | _ \<Rightarrow> True)"

text \<open>The shop after a request with a product id that the catalog does not have.\<close>

definition dangling_db :: db where
  "dangling_db = run [(asha, ReqAddToCart 99)] shop_db"

text \<open>The shop after asha cleared her cart and then asked for product 99, and a second customer.\<close>

definition stale_db :: db where
  "stale_db = run [(asha, ReqClearCart), (asha, ReqAddToCart 99)] shop_db"

definition bina :: session where
  "bina = \<lparr>s_user_id = Some 2, s_username = Some ''bina''\<rparr>"

text \<open>
  One store extends another when its orders and order items are those of the other
  followed by new rows, and every new row carries an order id that the other's
  AUTOINCREMENT counter had not reached.
\<close>

definition extends :: "db \<Rightarrow> db \<Rightarrow> bool" where
  "extends s s' =
     (\<exists>new_orders new_items.
        orders s' = orders s @ new_orders \<and>
        order_items s' = order_items s @ new_items \<and>
        orders_seq s \<le> orders_seq s' \<and>
        list_all (\<lambda>row. orders_seq s < o_id row) new_orders \<and>
        list_all (\<lambda>oi. orders_seq s < oi_order_id oi) new_items)"

text \<open>
  The shop after asha's checkout, and later: the price of Tomato was edited to 999, and
  asha bought one more Tomato.
\<close>

definition paid_db :: db where
  "paid_db = run [(asha, ReqCheckout NoFault POST)] shop_db"

definition later_db :: db where
  "later_db =
     history [CatalogEdited (map (\<lambda>p. if p_id p = 1 then p\<lparr>p_price := 999\<rparr> else p) (products paid_db)),
              Served asha (ReqAddToCart 1), Served asha (ReqCheckout NoFault POST)] paid_db"

text \<open>The shop between the price edit and the second checkout.\<close>

definition repriced_db :: db where
  "repriced_db =
     history [CatalogEdited (map (\<lambda>p. if p_id p = 1 then p\<lparr>p_price := 999\<rparr> else p) (products paid_db)),
              Served asha (ReqAddToCart 1)] paid_db"


section \<open>Properties of the statements\<close>

lemmas conn_defs = get_db_def execute_def commit_def close_db_def

lemma executemany_hit:
  "k < length items \<Longrightarrow>
     \<exists>c'. executemany_order_items (FailInsertItem k) oid items c = Inl (OperationalError, c') \<and>
          committed c' = committed c"
proof (induction items arbitrary: k c)
  case Nil
  then show ?case by simp
next
  case (Cons i items)
  show ?case
  proof (cases k)
    case 0
    then show ?thesis by simp
  next
    case (Suc j)
    with Cons.prems have "j < length items" by simp
    from Cons.IH [OF this, of "execute (insert_order_item oid i) c"] Suc
    show ?thesis by (simp add: execute_def)
  qed
qed

lemma executemany_miss:
  "\<not> (\<exists>k. f = FailInsertItem k \<and> k < length items) \<Longrightarrow>
     executemany_order_items f oid items c =
       Inr (c\<lparr>working := foldl (\<lambda>w i. insert_order_item oid i w) (working c) items\<rparr>)"
proof (induction items arbitrary: f c)
  case Nil
  then show ?case by simp
next
  case (Cons i items)
  show ?case
  proof (cases f)
    case (FailInsertItem k)
    with Cons.prems obtain j where k: "k = Suc j" and j: "\<not> j < length items"
      by (cases k) auto
    from j have "\<not> (\<exists>k'. FailInsertItem j = FailInsertItem k' \<and> k' < length items)" by simp
    from Cons.IH [OF this] FailInsertItem k show ?thesis
      by (simp add: execute_def)
  qed (use Cons.IH in \<open>simp_all add: execute_def\<close>)
qed

lemma checkout_post:
  assumes "truthy (current_user_id se)"
  shows "checkout f POST se s =
     (let uid = the (current_user_id se); items = select_items uid s in
      if items = [] then (EmptyCart, s)
      else if fault_hits f (length items) then (ServerError OperationalError, s)
      else (ThankYou (orders_seq s + 1),
            delete_cart_user uid
              (foldl (\<lambda>w i. insert_order_item (orders_seq s + 1) i w)
                 (insert_order uid (sum_list (map (\<lambda>i. i_price i * i_quantity i) items)) s)
                 items)))"
proof (cases "\<exists>k. f = FailInsertItem k \<and> k < length (select_items (the (current_user_id se)) s)")
  case True
  then obtain k where f: "f = FailInsertItem k"
    and k: "k < length (select_items (the (current_user_id se)) s)" by blast
  from k have ne: "select_items (the (current_user_id se)) s \<noteq> []" by auto
  from executemany_hit [OF k] obtain c' where
    "executemany_order_items (FailInsertItem k) (orders_seq s + 1)
       (select_items (the (current_user_id se)) s)
       \<lparr>committed = s, working = insert_order (the (current_user_id se))
          (sum_list (map (\<lambda>i. i_price i * i_quantity i) (select_items (the (current_user_id se)) s))) s\<rparr>
     = Inl (OperationalError, c')" and "committed c' = s"
    by fastforce
  then show ?thesis using assms f k ne
    by (simp add: checkout_def conn_defs Let_def fault_hits_def insert_order_def)
next
  case False
  show ?thesis
  proof (cases f)
    case (FailInsertItem k)
    with False have "\<not> k < length (select_items (the (current_user_id se)) s)" by simp
    with assms FailInsertItem show ?thesis
      by (simp add: checkout_def conn_defs Let_def executemany_miss fault_hits_def EmptyCart_def
            insert_order_def)
  qed (use assms in \<open>simp_all add: checkout_def conn_defs Let_def executemany_miss fault_hits_def
         EmptyCart_def insert_order_def\<close>)
qed

lemma checkout_unauth:
  "\<not> truthy (current_user_id se) \<Longrightarrow> checkout f m se s = (RedirectTo ''login'' None, s)"
  by (simp add: checkout_def)

lemma checkout_get:
  "truthy (current_user_id se) \<Longrightarrow> checkout f GET se s = (Template ''checkout.html'' None, s)"
  by (simp add: checkout_def conn_defs Let_def)

text \<open>What \<open>executemany\<close> leaves in the store.\<close>

lemma foldl_items_frame:
  "users (foldl (\<lambda>w i. insert_order_item oid i w) w items) = users w"
  "products (foldl (\<lambda>w i. insert_order_item oid i w) w items) = products w"
  "cart (foldl (\<lambda>w i. insert_order_item oid i w) w items) = cart w"
  "orders (foldl (\<lambda>w i. insert_order_item oid i w) w items) = orders w"
  "orders_seq (foldl (\<lambda>w i. insert_order_item oid i w) w items) = orders_seq w"
  "users_seq (foldl (\<lambda>w i. insert_order_item oid i w) w items) = users_seq w"
  "cart_seq (foldl (\<lambda>w i. insert_order_item oid i w) w items) = cart_seq w"
  "products_seq (foldl (\<lambda>w i. insert_order_item oid i w) w items) = products_seq w"
  by (induction items arbitrary: w; simp add: insert_order_item_def)+


lemma foldl_items_rows:
  "order_items (foldl (\<lambda>w i. insert_order_item oid i w) w items) =
     order_items w @ item_rows oid (order_items_seq w) items"
  by (induction items arbitrary: w) (simp_all add: insert_order_item_def)





section \<open>The shop, evaluated\<close>

lemma init_db_empty: "init_db empty_db =
  \<lparr>users = [],
    products =
      [\<lparr>p_id = 1, p_name = ''Tomato-1 Kg'', p_price = 200, p_image = Some ''img/tomato.jpeg''\<rparr>,
       \<lparr>p_id = 2, p_name = ''Beans-1 Kg'', p_price = 100, p_image = Some ''img/beans.jpeg''\<rparr>,
       \<lparr>p_id = 3, p_name = ''Brinjal-1 Kg'', p_price = 60, p_image = Some ''img/brinjal.jpeg''\<rparr>,
       \<lparr>p_id = 4, p_name = ''Potato-1 Kg'', p_price = 50, p_image = Some ''img/potato.jpeg''\<rparr>,
       \<lparr>p_id = 5, p_name = ''Cabbage-1 Kg'', p_price = 40, p_image = Some ''img/Cabbage.jpg''\<rparr>,
       \<lparr>p_id = 6, p_name = ''Onion-1 Kg'', p_price = 70, p_image = Some ''img/onion.jpg''\<rparr>,
       \<lparr>p_id = 7, p_name = ''Cauliflower-1 Pc'', p_price = 55, p_image = Some ''img/cauliflower.jpg''\<rparr>,
       \<lparr>p_id = 8, p_name = ''Lemon-6 Pc'', p_price = 30, p_image = Some ''img/lemon.jpg''\<rparr>],
    cart = [], orders = [], order_items = [], users_seq = 0,
    products_seq = 8, cart_seq = 0, orders_seq = 0, order_items_seq = 0\<rparr>"
  by (simp add: init_db_def empty_db_def conn_defs seed_products_def insert_product_def)

lemma strip_plain:
  "strip ''asha'' = ''asha''" "strip ''pw'' = ''pw''"
  "strip ''asha@example.org'' = ''asha@example.org''"
  by (simp_all add: strip_def is_space_def)

lemma asha_logged_in: "truthy (current_user_id asha)" "the (current_user_id asha) = 1"
  by (simp_all add: asha_def truthy_def current_user_id_def)

lemma shop_db_eq: "shop_db =
  \<lparr>users = [\<lparr>u_id = 1, u_username = ''asha'', u_email = Some ''asha@example.org'', u_password = ''pw''\<rparr>],
    products =
      [\<lparr>p_id = 1, p_name = ''Tomato-1 Kg'', p_price = 200, p_image = Some ''img/tomato.jpeg''\<rparr>,
       \<lparr>p_id = 2, p_name = ''Beans-1 Kg'', p_price = 100, p_image = Some ''img/beans.jpeg''\<rparr>,
       \<lparr>p_id = 3, p_name = ''Brinjal-1 Kg'', p_price = 60, p_image = Some ''img/brinjal.jpeg''\<rparr>,
       \<lparr>p_id = 4, p_name = ''Potato-1 Kg'', p_price = 50, p_image = Some ''img/potato.jpeg''\<rparr>,
       \<lparr>p_id = 5, p_name = ''Cabbage-1 Kg'', p_price = 40, p_image = Some ''img/Cabbage.jpg''\<rparr>,
       \<lparr>p_id = 6, p_name = ''Onion-1 Kg'', p_price = 70, p_image = Some ''img/onion.jpg''\<rparr>,
       \<lparr>p_id = 7, p_name = ''Cauliflower-1 Pc'', p_price = 55, p_image = Some ''img/cauliflower.jpg''\<rparr>,
       \<lparr>p_id = 8, p_name = ''Lemon-6 Pc'', p_price = 30, p_image = Some ''img/lemon.jpg''\<rparr>],
    cart =
      [\<lparr>c_id = 1, c_user_id = 1, c_product_id = 1, c_quantity = 2\<rparr>,
       \<lparr>c_id = 2, c_user_id = 1, c_product_id = 4, c_quantity = 1\<rparr>],
    orders = [], order_items = [], users_seq = 1, products_seq = 8,
    cart_seq = 2, orders_seq = 0, order_items_seq = 0\<rparr>"
  by (simp add: shop_db_def init_db_empty asha_def signup_def add_to_cart_def strip_plain
        insert_user_def conn_defs truthy_def current_user_id_def select_cart_quantity_def
        insert_cart_def update_cart_increment_def)

lemma dangling_db_eq: "dangling_db =
  shop_db\<lparr>cart :=
      [\<lparr>c_id = 1, c_user_id = 1, c_product_id = 1, c_quantity = 2\<rparr>,
       \<lparr>c_id = 2, c_user_id = 1, c_product_id = 4, c_quantity = 1\<rparr>,
       \<lparr>c_id = 3, c_user_id = 1, c_product_id = 99, c_quantity = 1\<rparr>],
    cart_seq := 3\<rparr>"
  by (simp add: dangling_db_def shop_db_eq asha_def add_to_cart_def conn_defs truthy_def
        current_user_id_def select_cart_quantity_def insert_cart_def)




lemma select_items_shop:
  "select_items 1 shop_db =
     [\<lparr>i_product_id = 1, i_price = 200, i_quantity = 2\<rparr>,
      \<lparr>i_product_id = 4, i_price = 50, i_quantity = 1\<rparr>]"
  by (simp add: select_items_def shop_db_eq)

lemma select_items_dangling:
  "select_items 1 dangling_db =
     [\<lparr>i_product_id = 1, i_price = 200, i_quantity = 2\<rparr>,
      \<lparr>i_product_id = 4, i_price = 50, i_quantity = 1\<rparr>]"
  by (simp add: select_items_def dangling_db_eq shop_db_eq)


lemma checkout_shop:
  "checkout NoFault POST asha shop_db =
     (ThankYou 1,
      shop_db\<lparr>cart := [],
        orders := [\<lparr>o_id = 1, o_user_id = 1, o_total_amount = 450\<rparr>],
        order_items :=
          [\<lparr>oi_id = 1, oi_order_id = 1, oi_product_id = 1, oi_quantity = 2, oi_price_each = 200\<rparr>,
           \<lparr>oi_id = 2, oi_order_id = 1, oi_product_id = 4, oi_quantity = 1, oi_price_each = 50\<rparr>],
        orders_seq := 1, order_items_seq := 2\<rparr>)"
  by (simp add: checkout_post asha_logged_in select_items_shop Let_def fault_hits_def)
     (simp add: shop_db_eq insert_order_def insert_order_item_def delete_cart_user_def)

lemma checkout_dangling:
  "checkout NoFault POST asha dangling_db =
     (ThankYou 1,
      shop_db\<lparr>cart := [],
        orders := [\<lparr>o_id = 1, o_user_id = 1, o_total_amount = 450\<rparr>],
        order_items :=
          [\<lparr>oi_id = 1, oi_order_id = 1, oi_product_id = 1, oi_quantity = 2, oi_price_each = 200\<rparr>,
           \<lparr>oi_id = 2, oi_order_id = 1, oi_product_id = 4, oi_quantity = 1, oi_price_each = 50\<rparr>],
        cart_seq := 3, orders_seq := 1, order_items_seq := 2\<rparr>)"
  by (simp add: checkout_post asha_logged_in select_items_dangling Let_def fault_hits_def)
     (simp add: dangling_db_eq shop_db_eq insert_order_def insert_order_item_def delete_cart_user_def)


section \<open>What a successful checkout writes\<close>

lemma checkout_thank_you:
  assumes "checkout f POST se s = (ThankYou oid, s')"
  shows "truthy (current_user_id se)"
    and "select_items (the (current_user_id se)) s \<noteq> []"
    and "oid = orders_seq s + 1"
    and "s' = delete_cart_user (the (current_user_id se))
           (foldl (\<lambda>w i. insert_order_item oid i w)
              (insert_order (the (current_user_id se))
                 (sum_list (map (\<lambda>i. i_price i * i_quantity i)
                    (select_items (the (current_user_id se)) s))) s)
              (select_items (the (current_user_id se)) s))"
proof -
  show auth: "truthy (current_user_id se)"
    using assms by (cases "truthy (current_user_id se)") (simp_all add: checkout_unauth)
  from assms show "select_items (the (current_user_id se)) s \<noteq> []"
    by (auto simp: checkout_post [OF auth] Let_def EmptyCart_def)
  from assms show "oid = orders_seq s + 1"
    by (auto simp: checkout_post [OF auth] Let_def EmptyCart_def split: if_splits)
  from assms show "s' = delete_cart_user (the (current_user_id se))
           (foldl (\<lambda>w i. insert_order_item oid i w)
              (insert_order (the (current_user_id se))
                 (sum_list (map (\<lambda>i. i_price i * i_quantity i)
                    (select_items (the (current_user_id se)) s))) s)
              (select_items (the (current_user_id se)) s))"
    by (auto simp: checkout_post [OF auth] Let_def EmptyCart_def split: if_splits)
qed

lemma checkout_orders:
  assumes "checkout f POST se s = (ThankYou oid, s')"
  shows "orders s' = orders s @
     [\<lparr>o_id = oid, o_user_id = the (current_user_id se),
       o_total_amount = sum_list (map (\<lambda>i. i_price i * i_quantity i)
          (select_items (the (current_user_id se)) s))\<rparr>]"
    and "order_items s' = order_items s @
       item_rows oid (order_items_seq s) (select_items (the (current_user_id se)) s)"
    and "cart s' = filter (\<lambda>c. c_user_id c \<noteq> the (current_user_id se)) (cart s)"
    and "users s' = users s" and "products s' = products s"
    and "orders_seq s' = oid"
  using checkout_thank_you(3) [OF assms]
  by (simp_all add: checkout_thank_you(4) [OF assms] delete_cart_user_def foldl_items_frame
        foldl_items_rows insert_order_def)


section \<open>Lists under UPDATE and DELETE\<close>






section \<open>The join and the cart\<close>

lemma stale_db_eq: "stale_db =
  shop_db\<lparr>cart := [\<lparr>c_id = 3, c_user_id = 1, c_product_id = 99, c_quantity = 1\<rparr>], cart_seq := 3\<rparr>"
  by (simp add: stale_db_def shop_db_eq asha_def add_to_cart_def clear_cart_def conn_defs truthy_def
        current_user_id_def select_cart_quantity_def insert_cart_def delete_cart_user_def)

lemma bina_logged_in: "truthy (current_user_id bina)" "the (current_user_id bina) = 2"
  by (simp_all add: bina_def truthy_def current_user_id_def)

lemma cart_lines_empty_items: "cart_lines uid s = [] \<Longrightarrow> select_items uid s = []"
  by (simp add: select_items_def cart_lines_def)

lemma find_None_filter: "(find P xs = None) = (filter P xs = [])"
  by (induction xs) simp_all

lemma select_items_pruned:
  "select_items uid (s\<lparr>cart := filter (in_catalog s) (cart s)\<rparr>) = select_items uid s"
proof -
  have "concat (map (\<lambda>c. map (\<lambda>p. \<lparr>i_product_id = c_product_id c, i_price = p_price p,
                                   i_quantity = c_quantity c\<rparr>)
                          (filter (\<lambda>p. p_id p = c_product_id c) (products s)))
                 (filter (\<lambda>c. c_user_id c = uid) (filter (in_catalog s) cs))) =
        concat (map (\<lambda>c. map (\<lambda>p. \<lparr>i_product_id = c_product_id c, i_price = p_price p,
                                   i_quantity = c_quantity c\<rparr>)
                          (filter (\<lambda>p. p_id p = c_product_id c) (products s)))
                 (filter (\<lambda>c. c_user_id c = uid) cs))" for cs
    by (induction cs) (auto simp: in_catalog_def catalog_price_def find_None_filter)
  then show ?thesis by (simp add: select_items_def)
qed

lemma priced_lines_empty_items: "priced_lines uid s = [] \<Longrightarrow> select_items uid s = []"
proof -
  assume "priced_lines uid s = []"
  then have "cart_lines uid (s\<lparr>cart := filter (in_catalog s) (cart s)\<rparr>) = []"
    by (simp add: priced_lines_def cart_lines_def filter_filter conj_commute)
  from cart_lines_empty_items [OF this] show ?thesis
    by (simp add: select_items_pruned)
qed


lemma stale_lines:
  "cart_lines 1 stale_db = [\<lparr>c_id = 3, c_user_id = 1, c_product_id = 99, c_quantity = 1\<rparr>]"
  "priced_lines 1 stale_db = []"
  by (simp_all add: priced_lines_def cart_lines_def in_catalog_def catalog_price_def stale_db_eq shop_db_eq)

lemma executemany_shop_fails:
  "executemany_order_items (FailInsertItem 1) 1 (select_items 1 shop_db)
     (execute (insert_order 1 450) (get_db shop_db)) =
   Inl (OperationalError,
     \<lparr>committed = shop_db,
       working = shop_db\<lparr>
         orders := [\<lparr>o_id = 1, o_user_id = 1, o_total_amount = 450\<rparr>],
         order_items :=
           [\<lparr>oi_id = 1, oi_order_id = 1, oi_product_id = 1, oi_quantity = 2, oi_price_each = 200\<rparr>],
         orders_seq := 1, order_items_seq := 1\<rparr>\<rparr>)"
  by (simp add: select_items_shop conn_defs)
     (simp add: shop_db_eq insert_order_def insert_order_item_def)

section \<open>Handlers and invariants\<close>

subsection \<open>What each handler does to the store\<close>

lemma list_ex_find: "list_ex P xs = (find P xs \<noteq> None)"
  by (induction xs) simp_all

lemma signup_store:
  "snd (signup m u e p s) = s \<or>
   (\<exists>row. snd (signup m u e p s) = s\<lparr>users := users s @ [row], users_seq := users_seq s + 1\<rparr>)"
  by (auto simp: signup_def insert_user_def conn_defs Let_def split: sum.splits error.splits)

lemma login_store: "snd (snd (login m u p se s)) = s"
  by (simp add: login_def conn_defs Let_def split: option.splits)

lemma add_to_cart_store:
  "add_to_cart se pid s =
     (if \<not> truthy (current_user_id se) then (JsonUnauthorized (Some ''login''), s)
      else (JsonOk,
        case select_cart_quantity (the (current_user_id se)) pid s of
          Some q \<Rightarrow> update_cart_increment (the (current_user_id se)) pid s
        | None \<Rightarrow> s\<lparr>cart := cart s @
              [\<lparr>c_id = cart_seq s + 1, c_user_id = the (current_user_id se), c_product_id = pid,
                c_quantity = 1\<rparr>],
            cart_seq := cart_seq s + 1\<rparr>))"
  by (auto simp: add_to_cart_def conn_defs Let_def insert_cart_def select_cart_quantity_def
        list_ex_find split: option.splits)

lemma update_cart_store:
  "update_cart se pid fld s =
     (if \<not> truthy (current_user_id se) then (JsonUnauthorized (Some ''login''), s)
      else case fld of
        Unparsable \<Rightarrow> (ServerError ValueError, s)
      | Absent \<Rightarrow> (JsonOk, update_cart_quantity 1 (the (current_user_id se)) pid s)
      | Parsed n \<Rightarrow>
          (JsonOk, if n \<le> 0 then delete_cart_line (the (current_user_id se)) pid s
                   else update_cart_quantity n (the (current_user_id se)) pid s))"
  by (auto simp: update_cart_def conn_defs Let_def max_def split: quantity_field.splits)

lemma clear_cart_store:
  "clear_cart se s =
     (if \<not> truthy (current_user_id se) then (JsonUnauthorized None, s)
      else (JsonOk, delete_cart_user (the (current_user_id se)) s))"
  by (simp add: clear_cart_def conn_defs)

lemma checkout_store:
  "snd (checkout f m se s) = s \<or>
   (\<exists>oid. checkout f POST se s = (ThankYou oid, snd (checkout f m se s)))"
proof (cases "truthy (current_user_id se)")
  case True
  show ?thesis
  proof (cases m)
    case GET
    with True show ?thesis by (simp add: checkout_get)
  next
    case POST
    with True show ?thesis by (simp add: checkout_post Let_def)
  qed
next
  case False
  then show ?thesis by (simp add: checkout_unauth)
qed

subsection \<open>The cart invariant\<close>















subsection \<open>Orders only grow\<close>

lemma extends_same:
  "orders s' = orders s \<Longrightarrow> order_items s' = order_items s \<Longrightarrow> orders_seq s' = orders_seq s \<Longrightarrow>
     extends s s'"
  by (simp add: extends_def)

lemma extendsI:
  "orders s' = orders s @ no \<Longrightarrow> order_items s' = order_items s @ noi \<Longrightarrow>
   orders_seq s \<le> orders_seq s' \<Longrightarrow>
   list_all (\<lambda>row. orders_seq s < o_id row) no \<Longrightarrow>
   list_all (\<lambda>oi. orders_seq s < oi_order_id oi) noi \<Longrightarrow> extends s s'"
  unfolding extends_def by blast

lemma extends_trans: "extends s s' \<Longrightarrow> extends s' s'' \<Longrightarrow> extends s s''"
proof -
  assume "extends s s'" and "extends s' s''"
  then obtain no noi no' noi' where
    a: "orders s' = orders s @ no" "order_items s' = order_items s @ noi"
       "orders_seq s \<le> orders_seq s'"
       "list_all (\<lambda>row. orders_seq s < o_id row) no"
       "list_all (\<lambda>oi. orders_seq s < oi_order_id oi) noi"
    and b: "orders s'' = orders s' @ no'" "order_items s'' = order_items s' @ noi'"
       "orders_seq s' \<le> orders_seq s''"
       "list_all (\<lambda>row. orders_seq s' < o_id row) no'"
       "list_all (\<lambda>oi. orders_seq s' < oi_order_id oi) noi'"
    unfolding extends_def by blast
  from a(3) b(4) have c: "list_all (\<lambda>row. orders_seq s < o_id row) no'"
    by (auto simp: list_all_iff)
  from a(3) b(5) have d: "list_all (\<lambda>oi. orders_seq s < oi_order_id oi) noi'"
    by (auto simp: list_all_iff)
  show ?thesis
    unfolding extends_def
  proof (intro exI conjI)
    show "orders s'' = orders s @ (no @ no')" by (simp add: a(1) b(1))
    show "order_items s'' = order_items s @ (noi @ noi')" by (simp add: a(2) b(2))
    show "orders_seq s \<le> orders_seq s''" using a(3) b(3) by simp
    show "list_all (\<lambda>row. orders_seq s < o_id row) (no @ no')" using a(4) c by simp
    show "list_all (\<lambda>oi. orders_seq s < oi_order_id oi) (noi @ noi')" using a(5) d by simp
  qed
qed

lemma item_rows_all: "list_all (\<lambda>oi. oi_order_id oi = oid) (item_rows oid n items)"
  by (induction items arbitrary: n) simp_all

lemma extends_checkout: "extends s (snd (checkout f m se s))"
proof -
  from checkout_store [of f m se s] show ?thesis
  proof
    assume "snd (checkout f m se s) = s"
    then show ?thesis by (simp add: extends_same)
  next
    assume "\<exists>oid. checkout f POST se s = (ThankYou oid, snd (checkout f m se s))"
    then obtain oid where a: "checkout f POST se s = (ThankYou oid, snd (checkout f m se s))" ..
    note oid = checkout_thank_you(3) [OF a]
    have "list_all (\<lambda>oi. orders_seq s < oi_order_id oi)
            (item_rows oid (order_items_seq s) (select_items (the (current_user_id se)) s))"
      using item_rows_all [of oid] oid by (auto simp: list_all_iff)
    with oid show ?thesis
      by (intro extendsI [OF checkout_orders(1) [OF a] checkout_orders(2) [OF a]])
         (simp_all add: checkout_orders(6) [OF a])
  qed
qed

lemma extends_handle: "extends s (snd (snd (handle se rq s)))"
proof (cases rq)
  case (ReqSignup m u e p)
  with signup_store [of m u e p s] show ?thesis
    by (auto simp: split_beta intro: extends_same)
next
  case (ReqCheckout f m)
  then show ?thesis by (simp add: split_beta extends_checkout)
qed (auto simp: split_beta login_store logout_def add_to_cart_store update_cart_store
       clear_cart_store update_cart_increment_def update_cart_quantity_def delete_cart_line_def
       delete_cart_user_def
     split: option.splits quantity_field.splits intro!: extends_same)

lemma extends_history: "extends s (history evs s)"
proof (induction evs arbitrary: s)
  case Nil
  show ?case by (simp add: extends_same)
next
  case (Cons ev evs)
  have "extends s (apply_event ev s)"
    by (cases ev) (simp_all add: extends_handle extends_same)
  from extends_trans [OF this Cons.IH] show ?case by simp
qed

lemma extends_order:
  assumes "extends s s'" and "oid \<le> orders_seq s"
  shows "items_of_order oid s' = items_of_order oid s"
    and "headers_of_order oid s' = headers_of_order oid s"
    and "take (length (orders s)) (orders s') = orders s"
    and "take (length (order_items s)) (order_items s') = order_items s"
proof -
  from assms(1) obtain no noi where
    a: "orders s' = orders s @ no" "order_items s' = order_items s @ noi"
       "list_all (\<lambda>row. orders_seq s < o_id row) no"
       "list_all (\<lambda>oi. orders_seq s < oi_order_id oi) noi"
    unfolding extends_def by blast
  from a(3) assms(2) have "filter (\<lambda>row. o_id row = oid) no = []"
    by (auto simp: filter_empty_conv list_all_iff)
  then show "headers_of_order oid s' = headers_of_order oid s"
    by (simp add: headers_of_order_def a(1))
  from a(4) assms(2) have "filter (\<lambda>oi. oi_order_id oi = oid) noi = []"
    by (auto simp: filter_empty_conv list_all_iff)
  then show "items_of_order oid s' = items_of_order oid s"
    by (simp add: items_of_order_def a(2))
  show "take (length (orders s)) (orders s') = orders s" by (simp add: a(1))
  show "take (length (order_items s)) (order_items s') = order_items s" by (simp add: a(2))
qed

subsection \<open>The constraints of the store\<close>

lemma store_ok_same:
  "products s' = products s \<Longrightarrow> orders s' = orders s \<Longrightarrow> order_items s' = order_items s \<Longrightarrow>
   orders_seq s' = orders_seq s \<Longrightarrow> store_ok s' = store_ok s"
  by (simp add: store_ok_def)

lemma store_ok_checkout: "store_ok s \<Longrightarrow> store_ok (snd (checkout f m se s))"
proof -
  assume ok: "store_ok s"
  from checkout_store [of f m se s] show ?thesis
  proof
    assume "snd (checkout f m se s) = s"
    with ok show ?thesis by simp
  next
    assume "\<exists>oid. checkout f POST se s = (ThankYou oid, snd (checkout f m se s))"
    then obtain oid where a: "checkout f POST se s = (ThankYou oid, snd (checkout f m se s))" ..
    note oid = checkout_thank_you(3) [OF a]
    from ok oid have old: "list_all (\<lambda>row. o_id row \<le> oid) (orders s)"
      "list_all (\<lambda>oi. oi_order_id oi \<le> oid) (order_items s)"
      by (auto simp: store_ok_def list_all_iff)
    have new: "list_all (\<lambda>oi. oi_order_id oi \<le> oid)
        (item_rows oid (order_items_seq s) (select_items (the (current_user_id se)) s))"
      using item_rows_all [of oid] by (auto simp: list_all_iff)
    from ok old new show ?thesis
      by (simp add: store_ok_def checkout_orders(1,2,5,6) [OF a])
  qed
qed

lemma store_ok_handle: "store_ok s \<Longrightarrow> store_ok (snd (snd (handle se rq s)))"
proof (cases rq)
  case (ReqSignup m u e p)
  assume "store_ok s"
  with ReqSignup signup_store [of m u e p s] show ?thesis
    by (auto simp: split_beta store_ok_def)
next
  case (ReqCheckout f m)
  assume "store_ok s"
  with ReqCheckout show ?thesis by (simp add: split_beta store_ok_checkout)
qed (auto simp: split_beta login_store logout_def add_to_cart_store update_cart_store
       clear_cart_store update_cart_increment_def update_cart_quantity_def delete_cart_line_def
       delete_cart_user_def store_ok_def
     split: option.splits quantity_field.splits)

lemma store_ok_run: "store_ok s \<Longrightarrow> store_ok (run rqs s)"
  by (induction rqs arbitrary: s) (auto simp: store_ok_handle)

lemma store_ok_reachable: "store_ok (run rqs (init_db empty_db))"
  by (rule store_ok_run) (simp add: init_db_empty store_ok_def)

subsection \<open>The shop after the checkout, and later\<close>

lemma paid_db_eq: "paid_db =
  shop_db\<lparr>cart := [],
    orders := [\<lparr>o_id = 1, o_user_id = 1, o_total_amount = 450\<rparr>],
    order_items :=
      [\<lparr>oi_id = 1, oi_order_id = 1, oi_product_id = 1, oi_quantity = 2, oi_price_each = 200\<rparr>,
       \<lparr>oi_id = 2, oi_order_id = 1, oi_product_id = 4, oi_quantity = 1, oi_price_each = 50\<rparr>],
    orders_seq := 1, order_items_seq := 2\<rparr>"
  by (simp add: paid_db_def checkout_shop)

lemma repriced_db_eq: "repriced_db =
  paid_db\<lparr>products :=
      [\<lparr>p_id = 1, p_name = ''Tomato-1 Kg'', p_price = 999, p_image = Some ''img/tomato.jpeg''\<rparr>,
       \<lparr>p_id = 2, p_name = ''Beans-1 Kg'', p_price = 100, p_image = Some ''img/beans.jpeg''\<rparr>,
       \<lparr>p_id = 3, p_name = ''Brinjal-1 Kg'', p_price = 60, p_image = Some ''img/brinjal.jpeg''\<rparr>,
       \<lparr>p_id = 4, p_name = ''Potato-1 Kg'', p_price = 50, p_image = Some ''img/potato.jpeg''\<rparr>,
       \<lparr>p_id = 5, p_name = ''Cabbage-1 Kg'', p_price = 40, p_image = Some ''img/Cabbage.jpg''\<rparr>,
       \<lparr>p_id = 6, p_name = ''Onion-1 Kg'', p_price = 70, p_image = Some ''img/onion.jpg''\<rparr>,
       \<lparr>p_id = 7, p_name = ''Cauliflower-1 Pc'', p_price = 55, p_image = Some ''img/cauliflower.jpg''\<rparr>,
       \<lparr>p_id = 8, p_name = ''Lemon-6 Pc'', p_price = 30, p_image = Some ''img/lemon.jpg''\<rparr>],
    cart := [\<lparr>c_id = 3, c_user_id = 1, c_product_id = 1, c_quantity = 1\<rparr>],
    cart_seq := 3\<rparr>"
  by (simp add: repriced_db_def add_to_cart_store asha_logged_in select_cart_quantity_def
        paid_db_eq shop_db_eq)

lemma select_items_repriced:
  "select_items 1 repriced_db = [\<lparr>i_product_id = 1, i_price = 999, i_quantity = 1\<rparr>]"
  by (simp add: select_items_def repriced_db_eq paid_db_eq shop_db_eq)

lemma later_db_eq: "later_db =
  repriced_db\<lparr>cart := [],
    orders := [\<lparr>o_id = 1, o_user_id = 1, o_total_amount = 450\<rparr>,
               \<lparr>o_id = 2, o_user_id = 1, o_total_amount = 999\<rparr>],
    order_items :=
      [\<lparr>oi_id = 1, oi_order_id = 1, oi_product_id = 1, oi_quantity = 2, oi_price_each = 200\<rparr>,
       \<lparr>oi_id = 2, oi_order_id = 1, oi_product_id = 4, oi_quantity = 1, oi_price_each = 50\<rparr>,
       \<lparr>oi_id = 3, oi_order_id = 2, oi_product_id = 1, oi_quantity = 1, oi_price_each = 999\<rparr>],
    orders_seq := 2, order_items_seq := 3\<rparr>"
proof -
  have "later_db = snd (checkout NoFault POST asha repriced_db)"
    by (simp add: later_db_def repriced_db_def split_beta)
  also have "\<dots> = delete_cart_user 1
      (foldl (\<lambda>w i. insert_order_item (orders_seq repriced_db + 1) i w)
         (insert_order 1 999 repriced_db) [\<lparr>i_product_id = 1, i_price = 999, i_quantity = 1\<rparr>])"
    by (simp add: checkout_post asha_logged_in select_items_repriced Let_def fault_hits_def)
  also have "\<dots> = repriced_db\<lparr>cart := [],
    orders := [\<lparr>o_id = 1, o_user_id = 1, o_total_amount = 450\<rparr>,
               \<lparr>o_id = 2, o_user_id = 1, o_total_amount = 999\<rparr>],
    order_items :=
      [\<lparr>oi_id = 1, oi_order_id = 1, oi_product_id = 1, oi_quantity = 2, oi_price_each = 200\<rparr>,
       \<lparr>oi_id = 2, oi_order_id = 1, oi_product_id = 4, oi_quantity = 1, oi_price_each = 50\<rparr>,
       \<lparr>oi_id = 3, oi_order_id = 2, oi_product_id = 1, oi_quantity = 1, oi_price_each = 999\<rparr>],
    orders_seq := 2, order_items_seq := 3\<rparr>"
    by (simp add: repriced_db_eq paid_db_eq shop_db_eq insert_order_def insert_order_item_def
          delete_cart_user_def)
  finally show ?thesis .
qed

subsection \<open>Accounts\<close>




section \<open>Cart management\<close>




section \<open>The order engine\<close>






text \<open>
  C5: a checkout by a user whose cart is empty answers with EmptyCart and returns the
  store as it was, so no order and no order item is created; and a checkout right after a
  successful one, on the store the first one left, answers with EmptyCart and changes
  nothing.
\<close>

theorem checkout_empty_cart:
  "(truthy (current_user_id se) \<and> cart_lines (the (current_user_id se)) s = [] \<longrightarrow>
      checkout f POST se s = (EmptyCart, s)) \<and>
   (checkout f POST se s = (ThankYou oid, s') \<longrightarrow>
      checkout f' POST se s' = (EmptyCart, s'))"
proof (intro conjI impI)
  assume "truthy (current_user_id se) \<and> cart_lines (the (current_user_id se)) s = []"
  then show "checkout f POST se s = (EmptyCart, s)"
    by (simp add: checkout_post cart_lines_empty_items)
next
  assume a: "checkout f POST se s = (ThankYou oid, s')"
  have "cart_lines (the (current_user_id se)) s' = []"
    by (simp add: cart_lines_def checkout_orders(3) [OF a])
  with checkout_thank_you(1) [OF a] show "checkout f' POST se s' = (EmptyCart, s')"
    by (simp add: checkout_post cart_lines_empty_items)
qed

theorem checkout_empty_cart_witness:
  "truthy (current_user_id bina) \<and> cart_lines (the (current_user_id bina)) shop_db = [] \<and>
   checkout NoFault POST bina shop_db = (EmptyCart, shop_db) \<and>
   fst (checkout NoFault POST asha shop_db) = ThankYou 1 \<and>
   checkout NoFault POST asha (snd (checkout NoFault POST asha shop_db)) =
     (EmptyCart, snd (checkout NoFault POST asha shop_db)) \<and>
   orders (snd (checkout NoFault POST asha (snd (checkout NoFault POST asha shop_db)))) =
     [\<lparr>o_id = 1, o_user_id = 1, o_total_amount = 450\<rparr>]"
proof -
  have e: "truthy (current_user_id bina) \<and> cart_lines (the (current_user_id bina)) shop_db = []"
    by (simp add: bina_logged_in cart_lines_def shop_db_eq)
  have c: "checkout NoFault POST asha shop_db = (ThankYou 1, snd (checkout NoFault POST asha shop_db))"
    by (simp add: checkout_shop)
  from checkout_empty_cart [where se = bina and s = shop_db and f = NoFault] e
  have 1: "checkout NoFault POST bina shop_db = (EmptyCart, shop_db)"
    by blast
  from checkout_empty_cart [where se = asha and s = shop_db and f = NoFault and oid = 1
      and s' = "snd (checkout NoFault POST asha shop_db)" and f' = NoFault] c
  have 2: "checkout NoFault POST asha (snd (checkout NoFault POST asha shop_db)) =
     (EmptyCart, snd (checkout NoFault POST asha shop_db))"
    by blast
  have 3: "orders (snd (checkout NoFault POST asha shop_db)) =
     [\<lparr>o_id = 1, o_user_id = 1, o_total_amount = 450\<rparr>]"
    by (simp add: checkout_shop)
  have 4: "fst (checkout NoFault POST asha shop_db) = ThankYou 1"
    by (simp add: checkout_shop)
  from e 1 2 3 4 show ?thesis by simp
qed

text \<open>
  C10: cart lines whose product id matches no catalog product have no part in a checkout.
  A successful checkout gives the same answer, the same orders and the same order items
  as it gives on the store with those lines taken out of the cart beforehand, so they add
  no order item and no amount; it leaves the user no cart line at all, the dangling ones
  included. A cart with no line in the catalog is an empty cart to checkout: EmptyCart,
  and the store, dangling lines and all, stays as it was.
\<close>

theorem checkout_excludes_dangling_lines:
  "(checkout f POST se s = (ThankYou oid, s') \<longrightarrow>
      fst (checkout f POST se (s\<lparr>cart := filter (in_catalog s) (cart s)\<rparr>)) = ThankYou oid \<and>
      orders (snd (checkout f POST se (s\<lparr>cart := filter (in_catalog s) (cart s)\<rparr>))) = orders s' \<and>
      order_items (snd (checkout f POST se (s\<lparr>cart := filter (in_catalog s) (cart s)\<rparr>))) =
        order_items s' \<and>
      cart_lines (the (current_user_id se)) s' = []) \<and>
   (truthy (current_user_id se) \<and> priced_lines (the (current_user_id se)) s = [] \<longrightarrow>
      checkout f POST se s = (EmptyCart, s))"
proof (intro conjI impI)
  assume a: "checkout f POST se s = (ThankYou oid, s')"
  let ?s0 = "s\<lparr>cart := filter (in_catalog s) (cart s)\<rparr>"
  let ?uid = "the (current_user_id se)"
  note auth = checkout_thank_you(1) [OF a]
  from a auth have nf: "\<not> fault_hits f (length (select_items ?uid s))" and ne: "select_items ?uid s \<noteq> []"
    by (auto simp: checkout_post Let_def EmptyCart_def split: if_splits)
  from auth nf ne checkout_thank_you(3) [OF a]
  have fst0: "fst (checkout f POST se ?s0) = ThankYou oid"
    by (simp add: checkout_post Let_def select_items_pruned)
  then show "fst (checkout f POST se ?s0) = ThankYou oid" .
  from fst0 have b: "checkout f POST se ?s0 = (ThankYou oid, snd (checkout f POST se ?s0))"
    by (simp add: prod_eq_iff)
  show "orders (snd (checkout f POST se ?s0)) = orders s'"
    by (simp add: checkout_orders(1) [OF b] checkout_orders(1) [OF a] select_items_pruned)
  show "order_items (snd (checkout f POST se ?s0)) = order_items s'"
    by (simp add: checkout_orders(2) [OF b] checkout_orders(2) [OF a] select_items_pruned)
  show "cart_lines ?uid s' = []"
    by (simp add: cart_lines_def checkout_orders(3) [OF a])
next
  assume "truthy (current_user_id se) \<and> priced_lines (the (current_user_id se)) s = []"
  then show "checkout f POST se s = (EmptyCart, s)"
    by (simp add: checkout_post priced_lines_empty_items)
qed

theorem checkout_excludes_dangling_lines_witness:
  "fst (checkout NoFault POST asha dangling_db) = ThankYou 1 \<and>
   length (cart_lines 1 dangling_db) = 3 \<and>
   dangling_db\<lparr>cart := filter (in_catalog dangling_db) (cart dangling_db)\<rparr> = shop_db\<lparr>cart_seq := 3\<rparr> \<and>
   orders (snd (checkout NoFault POST asha (shop_db\<lparr>cart_seq := 3\<rparr>))) =
     orders (snd (checkout NoFault POST asha dangling_db)) \<and>
   order_items (snd (checkout NoFault POST asha (shop_db\<lparr>cart_seq := 3\<rparr>))) =
     order_items (snd (checkout NoFault POST asha dangling_db)) \<and>
   cart_lines 1 (snd (checkout NoFault POST asha dangling_db)) = [] \<and>
   truthy (current_user_id asha) \<and> priced_lines 1 stale_db = [] \<and>
   length (cart_lines 1 stale_db) = 1 \<and>
   checkout NoFault POST asha stale_db = (EmptyCart, stale_db)"
proof -
  have c: "checkout NoFault POST asha dangling_db = (ThankYou 1, snd (checkout NoFault POST asha dangling_db))"
    by (simp add: checkout_dangling)
  have p: "dangling_db\<lparr>cart := filter (in_catalog dangling_db) (cart dangling_db)\<rparr> = shop_db\<lparr>cart_seq := 3\<rparr>"
    by (simp add: dangling_db_eq shop_db_eq in_catalog_def catalog_price_def)
  have e: "truthy (current_user_id asha) \<and> priced_lines (the (current_user_id asha)) stale_db = []"
    by (simp add: asha_logged_in stale_lines)
  from checkout_excludes_dangling_lines [where f = NoFault and se = asha and s = dangling_db
      and oid = 1 and s' = "snd (checkout NoFault POST asha dangling_db)"] c
  have 1: "orders (snd (checkout NoFault POST asha (shop_db\<lparr>cart_seq := 3\<rparr>))) =
       orders (snd (checkout NoFault POST asha dangling_db)) \<and>
     order_items (snd (checkout NoFault POST asha (shop_db\<lparr>cart_seq := 3\<rparr>))) =
       order_items (snd (checkout NoFault POST asha dangling_db)) \<and>
     cart_lines 1 (snd (checkout NoFault POST asha dangling_db)) = []"
    by (simp add: p asha_logged_in)
  from checkout_excludes_dangling_lines [where f = NoFault and se = asha and s = stale_db] e
  have 2: "checkout NoFault POST asha stale_db = (EmptyCart, stale_db)"
    by blast
  have 3: "length (cart_lines 1 dangling_db) = 3"
    by (simp add: cart_lines_def dangling_db_eq shop_db_eq)
  have 4: "fst (checkout NoFault POST asha dangling_db) = ThankYou 1"
    by (simp add: checkout_dangling)
  from 1 2 3 4 p show ?thesis
    by (simp add: asha_logged_in stale_lines)
qed

text \<open>
  C3: the order header, the order items and the deletion of the cart lines are written in
  the connection's view and published by the one \<open>commit\<close> that ends \<open>checkout\<close>. Whatever
  statement raises, and whatever the request, the store afterwards is either the store
  before, with no order answered, or the store with all three effects: the header, every
  item of the join, and the user's cart cleared. In the shop, a failure at the second
  item, at the deletion or at the commit leaves the store as it was, although the
  connection had by then written the header and the first item.
\<close>

theorem checkout_all_or_nothing:
  assumes "checkout f m se s = (r, s')"
  shows "(s' = s \<and> (\<forall>oid. r \<noteq> ThankYou oid)) \<or>
    (r = ThankYou (orders_seq s + 1) \<and>
     orders s' = orders s @
       [\<lparr>o_id = orders_seq s + 1, o_user_id = the (current_user_id se),
         o_total_amount = sum_list (map (\<lambda>i. i_price i * i_quantity i)
            (select_items (the (current_user_id se)) s))\<rparr>] \<and>
     order_items s' = order_items s @
       item_rows (orders_seq s + 1) (order_items_seq s) (select_items (the (current_user_id se)) s) \<and>
     cart s' = filter (\<lambda>c. c_user_id c \<noteq> the (current_user_id se)) (cart s))"
proof (cases "\<exists>oid. r = ThankYou oid")
  case True
  then obtain oid where r: "r = ThankYou oid" by blast
  have post: "m = POST"
    using assms r
    by (cases m; cases "truthy (current_user_id se)") (simp_all add: checkout_get checkout_unauth)
  with assms r have a: "checkout f POST se s = (ThankYou oid, s')" by simp
  from checkout_thank_you(3) [OF a] r checkout_orders(1-3) [OF a]
  show ?thesis by simp
next
  case False
  have "s' = s"
  proof (cases "truthy (current_user_id se)")
    case auth: True
    show ?thesis
    proof (cases m)
      case GET
      with assms auth show ?thesis by (simp add: checkout_get)
    next
      case POST
      with assms auth False show ?thesis
        by (auto simp: checkout_post Let_def split: if_splits)
    qed
  next
    case False
    with assms show ?thesis by (simp add: checkout_unauth)
  qed
  with False show ?thesis by simp
qed

theorem checkout_all_or_nothing_witness:
  "checkout (FailInsertItem 1) POST asha shop_db = (ServerError OperationalError, shop_db) \<and>
   checkout FailDeleteCart POST asha shop_db = (ServerError OperationalError, shop_db) \<and>
   checkout FailCommit POST asha shop_db = (ServerError OperationalError, shop_db) \<and>
   fst (checkout NoFault POST asha shop_db) = ThankYou 1 \<and>
   length (orders (snd (checkout NoFault POST asha shop_db))) = 1 \<and>
   length (order_items (snd (checkout NoFault POST asha shop_db))) = 2 \<and>
   cart (snd (checkout NoFault POST asha shop_db)) = []"
proof -
  have r: "fst (checkout (FailInsertItem 1) POST asha shop_db) = ServerError OperationalError"
    "fst (checkout FailDeleteCart POST asha shop_db) = ServerError OperationalError"
    "fst (checkout FailCommit POST asha shop_db) = ServerError OperationalError"
    by (simp_all add: checkout_post asha_logged_in select_items_shop Let_def fault_hits_def)
  have 1: "snd (checkout (FailInsertItem 1) POST asha shop_db) = shop_db"
    using checkout_all_or_nothing [OF surjective_pairing, of "FailInsertItem 1" POST asha shop_db] r(1)
    by simp
  have 2: "snd (checkout FailDeleteCart POST asha shop_db) = shop_db"
    using checkout_all_or_nothing [OF surjective_pairing, of FailDeleteCart POST asha shop_db] r(2)
    by simp
  have 3: "snd (checkout FailCommit POST asha shop_db) = shop_db"
    using checkout_all_or_nothing [OF surjective_pairing, of FailCommit POST asha shop_db] r(3)
    by simp
  have 4: "fst (checkout NoFault POST asha shop_db) = ThankYou 1 \<and>
   length (orders (snd (checkout NoFault POST asha shop_db))) = 1 \<and>
   length (order_items (snd (checkout NoFault POST asha shop_db))) = 2 \<and>
   cart (snd (checkout NoFault POST asha shop_db)) = []"
    by (simp add: checkout_shop)
  from r 1 2 3 4 show ?thesis
    by (simp add: prod_eq_iff)
qed



text \<open>
  C7: an order and its items, once written, are never changed. After any history of
  requests and catalog edits, the orders and order items that were in the store are still
  there, in place and unchanged, and the order that a checkout created still has exactly
  the header and the items it had, with the \<open>total_amount\<close> and every \<open>price_each\<close> as
  recorded. In the shop, asha's order keeps 200, 50 and 450 after the Tomato price is
  edited to 999, while her next order records 999.
\<close>

theorem orders_never_mutated:
  "take (length (orders s)) (orders (history evs s)) = orders s \<and>
   take (length (order_items s)) (order_items (history evs s)) = order_items s \<and>
   (checkout f POST se s0 = (ThankYou oid, s) \<longrightarrow>
      items_of_order oid (history evs s) = items_of_order oid s \<and>
      headers_of_order oid (history evs s) = headers_of_order oid s)"
proof (intro conjI impI)
  note ext = extends_history [of s evs]
  show "take (length (orders s)) (orders (history evs s)) = orders s"
    using ext unfolding extends_def by auto
  show "take (length (order_items s)) (order_items (history evs s)) = order_items s"
    using ext unfolding extends_def by auto
  assume a: "checkout f POST se s0 = (ThankYou oid, s)"
  from checkout_orders(6) [OF a] have "oid \<le> orders_seq s" by simp
  from extends_order(1,2) [OF ext this]
  show "items_of_order oid (history evs s) = items_of_order oid s"
    and "headers_of_order oid (history evs s) = headers_of_order oid s" .
qed

theorem orders_never_mutated_witness:
  "checkout NoFault POST asha shop_db = (ThankYou 1, paid_db) \<and>
   catalog_price paid_db 1 = Some 200 \<and> catalog_price later_db 1 = Some 999 \<and>
   items_of_order 1 later_db = items_of_order 1 paid_db \<and>
   headers_of_order 1 later_db = headers_of_order 1 paid_db \<and>
   map oi_price_each (items_of_order 1 later_db) = [200, 50] \<and>
   map o_total_amount (headers_of_order 1 later_db) = [450] \<and>
   map oi_price_each (items_of_order 2 later_db) = [999]"
proof -
  have c: "checkout NoFault POST asha shop_db = (ThankYou 1, paid_db)"
    by (simp add: paid_db_eq checkout_shop)
  have l: "later_db = history
     [CatalogEdited (map (\<lambda>p. if p_id p = 1 then p\<lparr>p_price := 999\<rparr> else p) (products paid_db)),
      Served asha (ReqAddToCart 1), Served asha (ReqCheckout NoFault POST)] paid_db"
    by (simp add: later_db_def)
  from orders_never_mutated [where s = paid_db and f = NoFault and se = asha and s0 = shop_db
      and oid = 1 and evs = "[CatalogEdited (map (\<lambda>p. if p_id p = 1 then p\<lparr>p_price := 999\<rparr> else p)
         (products paid_db)), Served asha (ReqAddToCart 1), Served asha (ReqCheckout NoFault POST)]"] c
  have same: "items_of_order 1 later_db = items_of_order 1 paid_db \<and>
      headers_of_order 1 later_db = headers_of_order 1 paid_db"
    unfolding l by blast
  have old: "map oi_price_each (items_of_order 1 paid_db) = [200, 50]"
    "map o_total_amount (headers_of_order 1 paid_db) = [450]"
    by (simp_all add: items_of_order_def headers_of_order_def paid_db_eq)
  have new: "map oi_price_each (items_of_order 2 later_db) = [999]"
    by (simp add: items_of_order_def later_db_eq)
  have prices: "catalog_price paid_db 1 = Some 200" "catalog_price later_db 1 = Some 999"
    by (simp_all add: catalog_price_def later_db_eq repriced_db_eq paid_db_eq shop_db_eq)
  from c same old new prices show ?thesis by simp
qed

section \<open>Accounts\<close>







end
